theory Spec2Isabelle
  imports Main "HOL-Library.Word"
begin

section \<open>Package stratus: a process-wide database handle\<close>

text \<open>
  The package (\<^verbatim>\<open>db.go\<close>) keeps one package-level variable \<^verbatim>\<open>db *gorm.DB\<close>, sets it
  in \<^verbatim>\<open>Connect\<close> and hands it out in \<^verbatim>\<open>GetInstance\<close>. Everything else it touches
  belongs to libraries: \<^verbatim>\<open>strings\<close>, \<^verbatim>\<open>os\<close>, \<^verbatim>\<open>database/sql\<close>, the Cloud SQL connector and
  GORM. The embedding keeps the package's own control flow and data flow and takes what
  the library calls answer as a parameter (the record \<open>env\<close> below).
\<close>

subsection \<open>Go values\<close>

text \<open>Go's \<^verbatim>\<open>int\<close> on a 64-bit platform; \<open>sint\<close> reads it as a signed number.\<close>

type_synonym go_int = "64 word"

text \<open>A non-nil pointer is an address; a pointer that may be nil is an \<open>addr option\<close>.\<close>

type_synonym addr = nat

text \<open>
  An \<^verbatim>\<open>error\<close> value. \<open>New msg\<close> is \<^verbatim>\<open>errors.New(msg)\<close>, and also what
  \<^verbatim>\<open>fmt.Errorf\<close> builds with the verb \<^verbatim>\<open>%v\<close> (a message only, nothing to unwrap);
  \<open>Wrap prefix e\<close> is \<^verbatim>\<open>fmt.Errorf(prefix + "%w", e)\<close>, which keeps \<open>e\<close> for
  \<^verbatim>\<open>errors.Unwrap\<close>. A nil error is \<open>None\<close> of \<open>error option\<close>.
\<close>

datatype error = New string | Wrap string error

fun Error :: "error \<Rightarrow> string" where
  "Error (New msg) = msg"
| "Error (Wrap prefix e) = prefix @ Error e"

text \<open>A call either returns or panics.\<close>

datatype 'a outcome = Return 'a | Panic string

subsection \<open>\<^verbatim>\<open>strings.ToLower\<close>\<close>

text \<open>
  Go strings are byte sequences, as \<open>string\<close> is here. On a string of ASCII bytes the
  library adds \<^verbatim>\<open>'a' - 'A'\<close> to every byte between \<^verbatim>\<open>'A'\<close> and \<^verbatim>\<open>'Z'\<close> and
  keeps the others; that path is modelled. Bytes from 128 on are kept as they are here,
  where the library decodes UTF-8 and maps runes by the Unicode tables. The three names
  the \<^verbatim>\<open>switch\<close> of \<^verbatim>\<open>Connect\<close> compares with are ASCII.
\<close>

definition toLower_byte :: "char \<Rightarrow> char" where
  "toLower_byte c =
     (if of_char (CHR ''A'') \<le> (of_char c :: nat) \<and> (of_char c :: nat) \<le> of_char (CHR ''Z'')
      then char_of ((of_char c :: nat) + (of_char (CHR ''a'') - of_char (CHR ''A'')))
      else c)"

definition ToLower :: "string \<Rightarrow> string" where
  "ToLower s = map toLower_byte s"

subsection \<open>Library objects\<close>

text \<open>
  A \<^verbatim>\<open>*sql.DB\<close> is known to this package by the methods it calls on it. Its state is
  the list of calls it has received, oldest first (what a test double would record).
\<close>

datatype sql_call = SetMaxOpenConns go_int | SetMaxIdleConns go_int

type_synonym sql_DB = "sql_call list"

text \<open>
  A configuration option \<^verbatim>\<open>func(*sql.DB) error\<close>: it may change the object it is given
  and returns an error or nil.
\<close>

type_synonym opt = "sql_DB \<Rightarrow> sql_DB \<times> error option"

datatype cloudsql_Option = WithIAMAuthN | WithCredentialsFile string

text \<open>
  The two dialectors \<^verbatim>\<open>Connect\<close> builds: \<^verbatim>\<open>postgres.Open(dsn)\<close> and
  \<^verbatim>\<open>postgres.New(postgres.Config{Conn: sdb})\<close>.
\<close>

datatype dialector = postgres_Open string | postgres_New "addr option"

text \<open>
  What the library calls answer during one call of \<^verbatim>\<open>Connect\<close>. A Go pair
  \<^verbatim>\<open>(*T, error)\<close> is a pair of options where the code stores the pointer before it looks
  at the error (\<^verbatim>\<open>sql.Open\<close>, \<^verbatim>\<open>gorm.Open\<close>). \<^verbatim>\<open>db.DB()\<close> answers an error or the
  address of the pool. The \<^verbatim>\<open>gorm.Config\<close> that \<^verbatim>\<open>Connect\<close> passes to
  \<^verbatim>\<open>gorm.Open\<close> is the same constant in every call and is left out.
\<close>

record env =
  os_Stat :: "string \<Rightarrow> error option"
  RegisterDriver :: "string \<Rightarrow> cloudsql_Option list \<Rightarrow> error option"
  sql_Open :: "string \<Rightarrow> string \<Rightarrow> addr option \<times> error option"
  gorm_Open :: "dialector \<Rightarrow> addr option \<times> error option"
  DB_method :: "addr \<Rightarrow> error + addr"

subsection \<open>Process state\<close>

text \<open>
  \<open>db\<close> is the package-level variable (\<open>None\<close> is nil). \<open>pools\<close> is the store of
  \<^verbatim>\<open>*sql.DB\<close> objects by address: the options mutate the object that the stored handle
  also reaches. \<open>RegisterDriver_calls\<close> records the arguments of every call of
  \<^verbatim>\<open>pgxv5.RegisterDriver\<close>, oldest first.
\<close>

record state =
  db :: "addr option"
  pools :: "addr \<Rightarrow> sql_DB"
  RegisterDriver_calls :: "(string \<times> cloudsql_Option list) list"

subsection \<open>\<^verbatim>\<open>Connect\<close>\<close>

text \<open>
  The \<^verbatim>\<open>switch\<close> of \<^verbatim>\<open>Connect\<close> (lines 44 to 80), on the driver name already in lower
  case. It answers the error the function returns from inside the \<^verbatim>\<open>switch\<close>, or
  \<open>None\<close> when control leaves the \<^verbatim>\<open>switch\<close>. The assignment
  \<^verbatim>\<open>db, err = gorm.Open(...)\<close> writes the package-level \<^verbatim>\<open>db\<close> before \<^verbatim>\<open>err\<close> is tested.
\<close>

definition open_db :: "env \<Rightarrow> string \<Rightarrow> string \<Rightarrow> state \<Rightarrow> error option \<times> state" where
  "open_db env driver dsn s =
     (if driver = ''cloudsql-postgres'' then
        (let authFile = ''/etc/sql/auth.json'';
             authOption = [WithIAMAuthN];
             authOption = (if os_Stat env authFile = None
                           then authOption @ [WithCredentialsFile authFile]
                           else authOption);
             s = s\<lparr>RegisterDriver_calls :=
                     RegisterDriver_calls s @ [(''cloudsql-postgres'', authOption)]\<rparr>
         in case RegisterDriver env ''cloudsql-postgres'' authOption of
              Some err \<Rightarrow> (Some (New (''pgxv5.RegisterDriver(...): '' @ Error err)), s)
            | None \<Rightarrow>
                (case sql_Open env driver dsn of
                   (sdb, Some err) \<Rightarrow> (Some (New (''sql.Open(...): '' @ Error err)), s)
                 | (sdb, None) \<Rightarrow>
                     (case gorm_Open env (postgres_New sdb) of
                        (h, Some err) \<Rightarrow> (Some (Wrap ''unable to open db: '' err), s\<lparr>db := h\<rparr>)
                      | (h, None) \<Rightarrow> (None, s\<lparr>db := h\<rparr>))))
      else if driver = ''postgresql'' \<or> driver = ''postgres'' then
        (case gorm_Open env (postgres_Open dsn) of
           (h, Some err) \<Rightarrow> (Some (Wrap ''unable to open db: '' err), s\<lparr>db := h\<rparr>)
         | (h, None) \<Rightarrow> (None, s\<lparr>db := h\<rparr>))
      else (Some (New (''unsupported database: '' @ driver)), s))"

text \<open>
  The loop \<^verbatim>\<open>for _, opt := range opts\<close> (lines 87 to 91) on the pool object: the first
  option that returns an error ends it.
\<close>

fun apply_opts :: "opt list \<Rightarrow> sql_DB \<Rightarrow> error option \<times> sql_DB" where
  "apply_opts [] d = (None, d)"
| "apply_opts (opt # opts) d =
     (case opt d of
        (d', Some err) \<Rightarrow> (Some (Wrap ''db opts failure: '' err), d')
      | (d', None) \<Rightarrow> apply_opts opts d')"

text \<open>
  Lines 83 to 93: \<^verbatim>\<open>db.DB()\<close> on the package-level handle (a nil handle is
  dereferenced there, which panics), then the options on the pool it returns.
\<close>

definition support_db_options :: "env \<Rightarrow> opt list \<Rightarrow> state \<Rightarrow> error option outcome \<times> state" where
  "support_db_options env opts s =
     (case db s of
        None \<Rightarrow> (Panic ''invalid memory address or nil pointer dereference'', s)
      | Some h \<Rightarrow>
          (case DB_method env h of
             Inl err \<Rightarrow> (Return (Some (Wrap ''unable to fetch *sql.DB from *gorm.DB: '' err)), s)
           | Inr sdb \<Rightarrow>
               (case apply_opts opts (pools s sdb) of
                  (r, d) \<Rightarrow> (Return r, s\<lparr>pools := (pools s)(sdb := d)\<rparr>))))"

definition Connect ::
  "env \<Rightarrow> string \<Rightarrow> string \<Rightarrow> opt list \<Rightarrow> state \<Rightarrow> error option outcome \<times> state" where
  "Connect env driver dsn opts s =
     (case open_db env (ToLower driver) dsn s of
        (Some err, s') \<Rightarrow> (Return (Some err), s')
      | (None, s') \<Rightarrow> support_db_options env opts s')"

subsection \<open>\<^verbatim>\<open>GetInstance\<close> and the two options\<close>

definition GetInstance :: "state \<Rightarrow> addr outcome" where
  "GetInstance s =
     (case db s of
        None \<Rightarrow> Panic ''database accessed before initialized''
      | Some h \<Rightarrow> Return h)"

definition WithMaxConnections :: "go_int \<Rightarrow> opt" where
  "WithMaxConnections max' = (\<lambda>d. (d @ [SetMaxOpenConns max'], None))"

definition WithMaxIdleConnections :: "go_int \<Rightarrow> opt" where
  "WithMaxIdleConnections max' = (\<lambda>d. (d @ [SetMaxIdleConns max'], None))"

subsection \<open>The pool after an option\<close>

text \<open>
  What an option leaves of the pool object it ran on, whatever it returns. Folding it over
  a list of options gives the object after they ran one after the other, first to last.
\<close>

definition apply1 :: "sql_DB \<Rightarrow> opt \<Rightarrow> sql_DB" where
  "apply1 d opt = fst (opt d)"

subsection \<open>The calls of \<^verbatim>\<open>Connect\<close> a process has made\<close>

text \<open>
  Only \<^verbatim>\<open>Connect\<close> writes the package-level variable. A process is followed through
  the calls of \<^verbatim>\<open>Connect\<close> it makes, oldest first, each with the answers the libraries
  give during it: the results of the calls, in order, and the state after the last one.
\<close>

type_synonym connect_call = "env \<times> string \<times> string \<times> opt list"

fun Connect_all :: "connect_call list \<Rightarrow> state \<Rightarrow> error option outcome list \<times> state" where
  "Connect_all [] s = ([], s)"
| "Connect_all ((env, driver, dsn, opts) # cs) s =
     (case Connect env driver dsn opts s of
        (r, s') \<Rightarrow> (case Connect_all cs s' of (rs, s'') \<Rightarrow> (r # rs, s'')))"

subsection \<open>What \<^verbatim>\<open>database/sql\<close> makes of the setter calls\<close>

text \<open>
  The two setters belong to Go's standard library, not to this package. They are modelled
  from the library's documented behaviour, on the two fields they write.
  \<^verbatim>\<open>SetMaxOpenConns(n)\<close> stores \<open>n\<close>, or 0 (no limit) when \<open>n\<close> is negative, and lowers
  the idle limit to the new open limit when that is positive and below it.
  \<^verbatim>\<open>SetMaxIdleConns(n)\<close> stores \<open>n\<close> when it is positive and \<open>-1\<close> (no idle
  connections) otherwise, and lowers the idle limit to the open limit when that is positive
  and below it. The idle limit in force is read by \<open>maxIdleConnsLocked\<close>: 2 when the
  field is 0 (the default), 0 when it is negative. A new \<^verbatim>\<open>sql.DB\<close> has both fields 0.
\<close>

record sql_limits =
  maxOpen :: int
  maxIdleCount :: int

definition maxIdleConnsLocked :: "sql_limits \<Rightarrow> int" where
  "maxIdleConnsLocked l =
     (if maxIdleCount l = 0 then 2 else if maxIdleCount l < 0 then 0 else maxIdleCount l)"

definition sql_SetMaxIdleConns :: "int \<Rightarrow> sql_limits \<Rightarrow> sql_limits" where
  "sql_SetMaxIdleConns n l =
     (let l = l\<lparr>maxIdleCount := (if n > 0 then n else - 1)\<rparr>
      in if maxOpen l > 0 \<and> maxIdleConnsLocked l > maxOpen l
         then l\<lparr>maxIdleCount := maxOpen l\<rparr>
         else l)"

definition sql_SetMaxOpenConns :: "int \<Rightarrow> sql_limits \<Rightarrow> sql_limits" where
  "sql_SetMaxOpenConns n l =
     (let l = l\<lparr>maxOpen := (if n < 0 then 0 else n)\<rparr>
      in if maxOpen l > 0 \<and> maxIdleConnsLocked l > maxOpen l
         then sql_SetMaxIdleConns n l
         else l)"

fun run_call :: "sql_limits \<Rightarrow> sql_call \<Rightarrow> sql_limits" where
  "run_call l (SetMaxOpenConns n) = sql_SetMaxOpenConns (sint n) l"
| "run_call l (SetMaxIdleConns n) = sql_SetMaxIdleConns (sint n) l"

text \<open>The limits of a pool that started with the limits \<open>l\<close> and received the calls \<open>d\<close>.\<close>

definition limits_after :: "sql_limits \<Rightarrow> sql_DB \<Rightarrow> sql_limits" where
  "limits_after l d = foldl run_call l d"

definition new_limits :: sql_limits where
  "new_limits = \<lparr>maxOpen = 0, maxIdleCount = 0\<rparr>"

subsection \<open>Sample inputs\<close>

text \<open>
  A fresh process; an environment in which every library call succeeds and no credential
  file exists; one in which the file exists; an option that fails; a process that already
  holds handle 7; and an environment whose \<^verbatim>\<open>gorm.Open\<close> answers another handle, 9,
  on another pool, 2. Two calls of \<^verbatim>\<open>Connect\<close>: one whose only option fails, one with a
  driver the package does not know.
\<close>

definition fresh :: state where
  "fresh = \<lparr>db = None, pools = (\<lambda>_. []), RegisterDriver_calls = []\<rparr>"

definition env_ok :: env where
  "env_ok = \<lparr>os_Stat = (\<lambda>_. Some (New ''stat: no such file or directory'')),
             RegisterDriver = (\<lambda>_ _. None),
             sql_Open = (\<lambda>_ _. (Some 1, None)),
             gorm_Open = (\<lambda>_. (Some 7, None)),
             DB_method = (\<lambda>_. Inr 1)\<rparr>"

definition env_keyfile :: env where
  "env_keyfile = env_ok\<lparr>os_Stat := (\<lambda>_. None)\<rparr>"

definition opt_boom :: opt where
  "opt_boom = (\<lambda>d. (d, Some (New ''boom'')))"

definition connected :: state where
  "connected = \<lparr>db = Some 7, pools = (\<lambda>_. []), RegisterDriver_calls = []\<rparr>"

definition env_second :: env where
  "env_second = env_ok\<lparr>gorm_Open := (\<lambda>_. (Some 9, None)), DB_method := (\<lambda>_. Inr 2)\<rparr>"

definition call_boom :: connect_call where
  "call_boom = (env_ok, ''postgres'', ''host=db'', [opt_boom])"

definition call_mysql :: connect_call where
  "call_mysql = (env_ok, ''MySQL'', ''host=db'', [])"

section \<open>Properties\<close>

subsection \<open>Lower case\<close>

lemma toLower_byte_idem: "toLower_byte (toLower_byte c) = toLower_byte c"
  by (simp add: toLower_byte_def)

lemma ToLower_idem: "ToLower (ToLower s) = ToLower s"
  by (simp add: ToLower_def toLower_byte_idem)

lemma ToLower_postgres: "ToLower ''postgres'' = ''postgres''"
  by code_simp

lemma ToLower_postgresql: "ToLower ''postgresql'' = ''postgresql''"
  by code_simp

lemma ToLower_cloudsql: "ToLower ''cloudsql-postgres'' = ''cloudsql-postgres''"
  by code_simp

lemma ToLower_CloudSQL: "ToLower ''CloudSQL-Postgres'' = ''cloudsql-postgres''"
  by code_simp

lemma ToLower_MySQL: "ToLower ''MySQL'' = ''mysql''"
  by code_simp

subsection \<open>The three arms of the \<^verbatim>\<open>switch\<close>\<close>

lemma open_db_unsupported:
  "driver \<noteq> ''cloudsql-postgres'' \<Longrightarrow> driver \<noteq> ''postgresql'' \<Longrightarrow> driver \<noteq> ''postgres'' \<Longrightarrow>
   open_db env driver dsn s = (Some (New (''unsupported database: '' @ driver)), s)"
  by (simp add: open_db_def)

lemma open_db_direct:
  "driver = ''postgresql'' \<or> driver = ''postgres'' \<Longrightarrow>
   open_db env driver dsn s =
     (case snd (gorm_Open env (postgres_Open dsn)) of
        Some err \<Rightarrow> Some (Wrap ''unable to open db: '' err)
      | None \<Rightarrow> None,
      s\<lparr>db := fst (gorm_Open env (postgres_Open dsn))\<rparr>)"
  by (auto simp: open_db_def split: prod.splits option.splits)

lemma open_db_cloudsql_calls:
  "RegisterDriver_calls (snd (open_db env ''cloudsql-postgres'' dsn s)) =
     RegisterDriver_calls s @
       [(''cloudsql-postgres'',
         WithIAMAuthN # (if os_Stat env ''/etc/sql/auth.json'' = None
                         then [WithCredentialsFile ''/etc/sql/auth.json''] else []))]"
  by (simp add: open_db_def Let_def split: option.split prod.split)

lemma open_db_cloudsql_error:
  "open_db env ''cloudsql-postgres'' dsn s = (Some e, s1) \<Longrightarrow>
     ((\<exists>err. e = New (''pgxv5.RegisterDriver(...): '' @ Error err)) \<or>
      (\<exists>err. e = New (''sql.Open(...): '' @ Error err))) \<and> db s1 = db s
   \<or> (\<exists>err. e = Wrap ''unable to open db: '' err) \<and>
      db s1 = fst (gorm_Open env (postgres_New (fst (sql_Open env ''cloudsql-postgres'' dsn))))"
  by (auto simp: open_db_def Let_def split: option.splits prod.splits)

lemma open_db_cloudsql_ok:
  "open_db env ''cloudsql-postgres'' dsn s = (None, s1) \<Longrightarrow>
     db s1 = fst (gorm_Open env (postgres_New (fst (sql_Open env ''cloudsql-postgres'' dsn))))"
  by (auto simp: open_db_def Let_def split: option.splits prod.splits)

lemma open_db_pools: "pools (snd (open_db env driver dsn s)) = pools s"
  by (simp add: open_db_def Let_def split: option.split prod.split)

lemma open_db_ok_db:
  assumes "open_db env driver dsn s = (None, s1)"
  shows "db s1 = fst (gorm_Open env
                   (if driver = ''cloudsql-postgres''
                    then postgres_New (fst (sql_Open env ''cloudsql-postgres'' dsn))
                    else postgres_Open dsn))"
proof -
  consider (cloud) "driver = ''cloudsql-postgres''"
    | (direct) "driver = ''postgresql'' \<or> driver = ''postgres''"
    | (other) "driver \<noteq> ''cloudsql-postgres''" "driver \<noteq> ''postgresql''" "driver \<noteq> ''postgres''"
    by blast
  then show ?thesis
  proof cases
    case cloud
    with open_db_cloudsql_ok [of env dsn s s1] assms show ?thesis by simp
  next
    case direct
    then have nc: "driver \<noteq> ''cloudsql-postgres''" by auto
    from open_db_direct [OF direct, of env dsn s] assms show ?thesis
      by (simp add: nc split: option.splits)
  next
    case other
    from open_db_unsupported [OF other, of env dsn s] assms show ?thesis by simp
  qed
qed

subsection \<open>The options\<close>

lemma apply_opts_error:
  "apply_opts opts d = (Some e, d') \<Longrightarrow> \<exists>err. e = Wrap ''db opts failure: '' err"
  by (induction opts arbitrary: d) (auto split: prod.splits option.splits)

lemma apply_opts_all_ok:
  "\<forall>k<length pre. snd ((pre ! k) (foldl apply1 d (take k pre))) = None \<Longrightarrow>
   apply_opts (pre @ post) d = apply_opts post (foldl apply1 d pre)"
proof (induction pre arbitrary: d)
  case Nil
  then show ?case by simp
next
  case (Cons x xs)
  from Cons.prems have x: "snd (x d) = None" by fastforce
  have "\<forall>k<length xs. snd ((xs ! k) (foldl apply1 (apply1 d x) (take k xs))) = None"
  proof (intro allI impI)
    fix k assume "k < length xs"
    with Cons.prems
    have "snd (((x # xs) ! Suc k) (foldl apply1 d (take (Suc k) (x # xs)))) = None"
      by (metis Suc_less_eq length_Cons)
    then show "snd ((xs ! k) (foldl apply1 (apply1 d x) (take k xs))) = None" by simp
  qed
  from Cons.IH [OF this] x show ?case
    by (cases "x d") (simp add: apply1_def)
qed

lemma support_db_options_db: "db (snd (support_db_options env opts s)) = db s"
  by (simp add: support_db_options_def split: option.split sum.split prod.split)

lemma support_db_options_calls:
  "RegisterDriver_calls (snd (support_db_options env opts s)) = RegisterDriver_calls s"
  by (simp add: support_db_options_def split: option.split sum.split prod.split)

lemma support_db_options_pools:
  "(\<forall>h. db s = Some h \<longrightarrow> DB_method env h \<noteq> Inr a) \<Longrightarrow>
   pools (snd (support_db_options env opts s)) a = pools s a"
  by (auto simp: support_db_options_def split: option.split sum.split prod.split)

lemma support_db_options_error:
  "fst (support_db_options env opts s) = Return (Some e) \<Longrightarrow>
     (\<exists>err. e = Wrap ''unable to fetch *sql.DB from *gorm.DB: '' err) \<or>
     (\<exists>err. e = Wrap ''db opts failure: '' err)"
  by (auto simp: support_db_options_def dest: apply_opts_error
      split: option.splits sum.splits prod.splits)

lemma Connect_cloudsql_calls:
  assumes "ToLower driver = ''cloudsql-postgres''"
  shows "RegisterDriver_calls (snd (Connect env driver dsn opts s)) =
     RegisterDriver_calls s @
       [(''cloudsql-postgres'',
         WithIAMAuthN # (if os_Stat env ''/etc/sql/auth.json'' = None
                         then [WithCredentialsFile ''/etc/sql/auth.json''] else []))]"
proof -
  obtain r s1 where o: "open_db env ''cloudsql-postgres'' dsn s = (r, s1)"
    by (cases "open_db env ''cloudsql-postgres'' dsn s")
  from open_db_cloudsql_calls [of env dsn s] o
  have "RegisterDriver_calls s1 = RegisterDriver_calls s @
       [(''cloudsql-postgres'',
         WithIAMAuthN # (if os_Stat env ''/etc/sql/auth.json'' = None
                         then [WithCredentialsFile ''/etc/sql/auth.json''] else []))]"
    by simp
  with o assms show ?thesis
    by (cases r) (simp_all add: Connect_def support_db_options_calls)
qed

lemma Connect_boom:
  "fst (Connect env_ok ''postgres'' ''host=db'' [opt_boom] fresh) =
     Return (Some (Wrap ''db opts failure: '' (New ''boom'')))"
  by (simp add: Connect_def open_db_def support_db_options_def ToLower_postgres env_ok_def
      fresh_def opt_boom_def)

lemma open_db_fresh:
  "open_db env_ok (ToLower ''postgres'') ''host=db'' fresh = (None, fresh\<lparr>db := Some 7\<rparr>)"
  by (simp add: open_db_def ToLower_postgres env_ok_def)

subsection \<open>The handle after a failing call\<close>

lemma Connect_error_db:
  assumes "fst (Connect env driver dsn opts s) = Return (Some e)"
  shows "((e = New (''unsupported database: '' @ ToLower driver) \<or>
           (\<exists>err. e = New (''pgxv5.RegisterDriver(...): '' @ Error err)) \<or>
           (\<exists>err. e = New (''sql.Open(...): '' @ Error err))) \<and>
          db (snd (Connect env driver dsn opts s)) = db s)
       \<or> (((\<exists>err. e = Wrap ''unable to open db: '' err) \<or>
            (\<exists>err. e = Wrap ''unable to fetch *sql.DB from *gorm.DB: '' err) \<or>
            (\<exists>err. e = Wrap ''db opts failure: '' err)) \<and>
           db (snd (Connect env driver dsn opts s)) =
             fst (gorm_Open env
                   (if ToLower driver = ''cloudsql-postgres''
                    then postgres_New (fst (sql_Open env ''cloudsql-postgres'' dsn))
                    else postgres_Open dsn)))"
    (is "?same \<or> ?stored")
proof -
  obtain r s1 where o: "open_db env (ToLower driver) dsn s = (r, s1)"
    by (cases "open_db env (ToLower driver) dsn s")
  consider (cloud) "ToLower driver = ''cloudsql-postgres''"
    | (direct) "ToLower driver = ''postgresql'' \<or> ToLower driver = ''postgres''"
    | (other) "ToLower driver \<noteq> ''cloudsql-postgres''" "ToLower driver \<noteq> ''postgresql''"
        "ToLower driver \<noteq> ''postgres''"
    by blast
  then show ?thesis
  proof cases
    case other
    from open_db_unsupported [OF other] assms show ?thesis
      by (simp add: Connect_def)
  next
    case cloud
    show ?thesis
    proof (cases r)
      case (Some err)
      with o assms have e: "e = err" and c: "snd (Connect env driver dsn opts s) = s1"
        by (simp_all add: Connect_def)
      from open_db_cloudsql_error [of env dsn s err s1] o Some cloud
      show ?thesis unfolding c e by (simp add: cloud; blast)
    next
      case None
      with o have c: "Connect env driver dsn opts s = support_db_options env opts s1"
        by (simp add: Connect_def)
      from open_db_cloudsql_ok [of env dsn s s1] o None cloud
      have d: "db s1 =
          fst (gorm_Open env (postgres_New (fst (sql_Open env ''cloudsql-postgres'' dsn))))"
        by simp
      from support_db_options_error [of env opts s1 e] assms c
      have k: "(\<exists>err. e = Wrap ''unable to fetch *sql.DB from *gorm.DB: '' err) \<or>
            (\<exists>err. e = Wrap ''db opts failure: '' err)" by simp
      have "?stored" unfolding c support_db_options_db d using k by (simp add: cloud; blast)
      then show ?thesis ..
    qed
  next
    case direct
    then have nc: "ToLower driver \<noteq> ''cloudsql-postgres''" by auto
    note od = open_db_direct [OF direct, of env dsn s]
    show ?thesis
    proof (cases r)
      case (Some err)
      with o assms have e: "e = err" and c: "snd (Connect env driver dsn opts s) = s1"
        by (simp_all add: Connect_def)
      from od o Some have "(\<exists>err. e = Wrap ''unable to open db: '' err)"
        and "db s1 = fst (gorm_Open env (postgres_Open dsn))"
        unfolding e by (auto split: option.splits)
      then have "?stored" unfolding c by (simp add: nc; blast)
      then show ?thesis ..
    next
      case None
      with o have c: "Connect env driver dsn opts s = support_db_options env opts s1"
        by (simp add: Connect_def)
      from od o None have d: "db s1 = fst (gorm_Open env (postgres_Open dsn))"
        by (auto split: option.splits)
      from support_db_options_error [of env opts s1 e] assms c
      have k: "(\<exists>err. e = Wrap ''unable to fetch *sql.DB from *gorm.DB: '' err) \<or>
            (\<exists>err. e = Wrap ''db opts failure: '' err)" by simp
      have "?stored" unfolding c support_db_options_db d using k by (simp add: nc; blast)
      then show ?thesis ..
    qed
  qed
qed

lemma Connect_early_error_db:
  assumes "fst (Connect env driver dsn opts s) = Return (Some (New m))"
  shows "db (snd (Connect env driver dsn opts s)) = db s"
  using Connect_error_db [OF assms] by auto

subsection \<open>Failing calls and the package-level handle\<close>

text \<open>
  C1, as stated: every call of \<^verbatim>\<open>Connect\<close> that returns an error leaves the
  package-level handle as it was, so that \<^verbatim>\<open>GetInstance\<close> never shows a handle that is
  not fully configured. It fails: on a fresh process, with the driver \<^verbatim>\<open>postgres\<close> and
  the options "at most 5 open connections", an option that fails, "at most 2 idle
  connections", the call returns the second option's error, and yet the handle is no
  longer nil, \<^verbatim>\<open>GetInstance\<close> returns it, and its pool has received the first option
  only.
\<close>

theorem Connect_failure_counterexample:
  "fst (Connect env_ok ''postgres'' ''host=db''
          [WithMaxConnections 5, opt_boom, WithMaxIdleConnections 2] fresh)
     = Return (Some (Wrap ''db opts failure: '' (New ''boom''))) \<and>
   db fresh = None \<and>
   db (snd (Connect env_ok ''postgres'' ''host=db''
          [WithMaxConnections 5, opt_boom, WithMaxIdleConnections 2] fresh)) = Some 7 \<and>
   GetInstance (snd (Connect env_ok ''postgres'' ''host=db''
          [WithMaxConnections 5, opt_boom, WithMaxIdleConnections 2] fresh)) = Return 7 \<and>
   pools (snd (Connect env_ok ''postgres'' ''host=db''
          [WithMaxConnections 5, opt_boom, WithMaxIdleConnections 2] fresh)) 1
     = [SetMaxOpenConns 5]"
  by (simp add: Connect_def open_db_def support_db_options_def ToLower_postgres env_ok_def
      fresh_def opt_boom_def WithMaxConnections_def WithMaxIdleConnections_def GetInstance_def)

text \<open>
  C1, amended: a call of \<^verbatim>\<open>Connect\<close> that returns an error leaves the package-level
  handle as it was, and \<^verbatim>\<open>GetInstance\<close> answering as before, when the error is the
  unsupported-driver error, the registration failure or the low-level open failure. When
  the error is the ORM-open failure, the failure to fetch the pool or an option's failure,
  the handle is the pointer that \<^verbatim>\<open>gorm.Open\<close> returned in this call, and
  \<^verbatim>\<open>GetInstance\<close> returns that pointer when it is not nil and panics when it is.
\<close>

theorem Connect_failure_handle:
  assumes "fst (Connect env driver dsn opts s) = Return (Some e)"
  shows "((e = New (''unsupported database: '' @ ToLower driver) \<or>
           (\<exists>err. e = New (''pgxv5.RegisterDriver(...): '' @ Error err)) \<or>
           (\<exists>err. e = New (''sql.Open(...): '' @ Error err))) \<and>
          db (snd (Connect env driver dsn opts s)) = db s \<and>
          GetInstance (snd (Connect env driver dsn opts s)) = GetInstance s)
       \<or> (((\<exists>err. e = Wrap ''unable to open db: '' err) \<or>
            (\<exists>err. e = Wrap ''unable to fetch *sql.DB from *gorm.DB: '' err) \<or>
            (\<exists>err. e = Wrap ''db opts failure: '' err)) \<and>
           db (snd (Connect env driver dsn opts s)) =
             fst (gorm_Open env
                   (if ToLower driver = ''cloudsql-postgres''
                    then postgres_New (fst (sql_Open env ''cloudsql-postgres'' dsn))
                    else postgres_Open dsn)) \<and>
           GetInstance (snd (Connect env driver dsn opts s)) =
             (case fst (gorm_Open env
                         (if ToLower driver = ''cloudsql-postgres''
                          then postgres_New (fst (sql_Open env ''cloudsql-postgres'' dsn))
                          else postgres_Open dsn)) of
                None \<Rightarrow> Panic ''database accessed before initialized''
              | Some h \<Rightarrow> Return h))"
proof -
  have g: "\<And>x. db (snd (Connect env driver dsn opts s)) = x \<Longrightarrow>
             GetInstance (snd (Connect env driver dsn opts s)) =
               (case x of None \<Rightarrow> Panic ''database accessed before initialized''
                | Some h \<Rightarrow> Return h)"
    by (simp add: GetInstance_def)
  have g': "db (snd (Connect env driver dsn opts s)) = db s \<Longrightarrow>
             GetInstance (snd (Connect env driver dsn opts s)) = GetInstance s"
    by (simp add: GetInstance_def)
  from Connect_error_db [OF assms] show ?thesis
  proof
    assume "(e = New (''unsupported database: '' @ ToLower driver) \<or>
           (\<exists>err. e = New (''pgxv5.RegisterDriver(...): '' @ Error err)) \<or>
           (\<exists>err. e = New (''sql.Open(...): '' @ Error err))) \<and>
          db (snd (Connect env driver dsn opts s)) = db s"
    with g' show ?thesis by blast
  next
    assume "((\<exists>err. e = Wrap ''unable to open db: '' err) \<or>
            (\<exists>err. e = Wrap ''unable to fetch *sql.DB from *gorm.DB: '' err) \<or>
            (\<exists>err. e = Wrap ''db opts failure: '' err)) \<and>
           db (snd (Connect env driver dsn opts s)) =
             fst (gorm_Open env
                   (if ToLower driver = ''cloudsql-postgres''
                    then postgres_New (fst (sql_Open env ''cloudsql-postgres'' dsn))
                    else postgres_Open dsn))"
    with g show ?thesis by blast
  qed
qed

theorem Connect_failure_handle_witness:
  "fst (Connect env_ok ''postgres'' ''host=db'' [opt_boom] fresh) =
     Return (Some (Wrap ''db opts failure: '' (New ''boom''))) \<and>
   db (snd (Connect env_ok ''postgres'' ''host=db'' [opt_boom] fresh)) =
     fst (gorm_Open env_ok (postgres_Open ''host=db'')) \<and>
   GetInstance (snd (Connect env_ok ''postgres'' ''host=db'' [opt_boom] fresh)) = Return 7"
  using Connect_failure_handle [OF Connect_boom] Connect_boom
  by (simp add: ToLower_postgres env_ok_def)

subsection \<open>Unsupported drivers\<close>

text \<open>
  C2. For every driver name whose lower-case form is none of \<^verbatim>\<open>cloudsql-postgres\<close>,
  \<^verbatim>\<open>postgresql\<close>, \<^verbatim>\<open>postgres\<close>, \<^verbatim>\<open>Connect\<close> returns the error
  "unsupported database: " followed by the lower-case name, and the whole process state,
  the package-level handle with it, is what it was before the call.
\<close>

theorem Connect_unsupported:
  assumes "ToLower driver \<notin> {''cloudsql-postgres'', ''postgresql'', ''postgres''}"
  shows "Connect env driver dsn opts s =
           (Return (Some (New (''unsupported database: '' @ ToLower driver))), s)"
  using assms by (simp add: Connect_def open_db_def)

theorem Connect_unsupported_witness:
  "ToLower ''MySQL'' \<notin> {''cloudsql-postgres'', ''postgresql'', ''postgres''} \<and>
   Connect env_ok ''MySQL'' ''host=db'' [opt_boom] fresh =
     (Return (Some (New ''unsupported database: mysql'')), fresh)"
proof -
  have h: "ToLower ''MySQL'' \<notin> {''cloudsql-postgres'', ''postgresql'', ''postgres''}"
    by code_simp
  have l: "ToLower ''MySQL'' = ''mysql''" by code_simp
  from Connect_unsupported [OF h, of env_ok "''host=db''" "[opt_boom]" fresh] h l
  show ?thesis by simp
qed

subsection \<open>Options run in order and stop at the first failure\<close>

text \<open>
  C3. After a successful open, the options run in the order supplied, each on the pool as
  the one before left it. If they all return nil, \<^verbatim>\<open>Connect\<close> returns nil. If the
  options \<open>pre\<close> return nil and the next one, \<open>f\<close>, returns an error \<open>e\<close>,
  \<^verbatim>\<open>Connect\<close> returns \<open>e\<close> wrapped as "db opts failure: ", the pool is as \<open>f\<close> left it,
  and whatever options \<open>post\<close> follow \<open>f\<close> have no part in the result: none of them
  runs.
\<close>

theorem Connect_opts_in_order:
  assumes "open_db env (ToLower driver) dsn s = (None, s1)"
    and "db s1 = Some h" and "DB_method env h = Inr sdb"
    and "\<forall>k<length pre. snd ((pre ! k) (foldl apply1 (pools s1 sdb) (take k pre))) = None"
  shows "Connect env driver dsn pre s =
           (Return None, s1\<lparr>pools := (pools s1)(sdb := foldl apply1 (pools s1 sdb) pre)\<rparr>) \<and>
         (\<forall>f post d e. f (foldl apply1 (pools s1 sdb) pre) = (d, Some e) \<longrightarrow>
            Connect env driver dsn (pre @ f # post) s =
              (Return (Some (Wrap ''db opts failure: '' e)), s1\<lparr>pools := (pools s1)(sdb := d)\<rparr>))"
proof -
  note ok = apply_opts_all_ok [OF assms(4)]
  from ok [of "[]"]
  have a: "apply_opts pre (pools s1 sdb) = (None, foldl apply1 (pools s1 sdb) pre)"
    by simp
  show ?thesis
    using assms(1-3) a ok by (simp add: Connect_def support_db_options_def)
qed

theorem Connect_opts_in_order_witness:
  "Connect env_ok ''postgres'' ''host=db'' [WithMaxConnections 5] fresh =
     (Return None, fresh\<lparr>db := Some 7, pools := (pools fresh)(1 := [SetMaxOpenConns 5])\<rparr>) \<and>
   Connect env_ok ''postgres'' ''host=db''
       [WithMaxConnections 5, opt_boom, WithMaxIdleConnections 2] fresh =
     (Return (Some (Wrap ''db opts failure: '' (New ''boom''))),
      fresh\<lparr>db := Some 7, pools := (pools fresh)(1 := [SetMaxOpenConns 5])\<rparr>)"
proof -
  have h2: "db (fresh\<lparr>db := Some 7\<rparr>) = Some 7" by simp
  have h3: "DB_method env_ok 7 = Inr 1" by (simp add: env_ok_def)
  have h4: "\<forall>k<length [WithMaxConnections 5].
             snd (([WithMaxConnections 5] ! k)
               (foldl apply1 (pools (fresh\<lparr>db := Some 7\<rparr>) 1)
                  (take k [WithMaxConnections 5]))) = None"
    by (simp add: WithMaxConnections_def)
  have f: "foldl apply1 (pools (fresh\<lparr>db := Some 7\<rparr>) 1) [WithMaxConnections 5] =
             [SetMaxOpenConns 5]"
    by (simp add: fresh_def apply1_def WithMaxConnections_def)
  have b: "opt_boom [SetMaxOpenConns 5] = ([SetMaxOpenConns 5], Some (New ''boom''))"
    by (simp add: opt_boom_def)
  from Connect_opts_in_order [OF open_db_fresh h2 h3 h4] f b show ?thesis
    by (simp add: fresh_def)
qed

subsection \<open>\<^verbatim>\<open>GetInstance\<close>\<close>

text \<open>
  C4, as stated: in every state in which no successful call of \<^verbatim>\<open>Connect\<close> has set
  the handle, \<^verbatim>\<open>GetInstance\<close> panics. It fails: a fresh process makes one call of
  \<^verbatim>\<open>Connect\<close>, which returns an option's error; no call has succeeded, and
  \<^verbatim>\<open>GetInstance\<close> returns handle 7.
\<close>

theorem GetInstance_after_failure_counterexample:
  "db fresh = None \<and>
   fst (Connect_all [call_boom] fresh) =
     [Return (Some (Wrap ''db opts failure: '' (New ''boom'')))] \<and>
   GetInstance (snd (Connect_all [call_boom] fresh)) = Return 7"
  by (simp add: call_boom_def Connect_def open_db_def support_db_options_def ToLower_postgres
      env_ok_def fresh_def opt_boom_def GetInstance_def)

text \<open>
  C4, amended: \<^verbatim>\<open>GetInstance\<close> panics in every state in which the package-level handle
  is nil. The handle is nil when the process starts, and it is still nil, so that
  \<^verbatim>\<open>GetInstance\<close> panics, after any calls of \<^verbatim>\<open>Connect\<close> that each returned the
  unsupported-driver error, the registration failure or the low-level open failure (the
  errors that are not wrapped ones).
\<close>

theorem GetInstance_nil_panics:
  assumes "db s = None"
    and "\<forall>r \<in> set (fst (Connect_all calls s)). \<exists>m. r = Return (Some (New m))"
  shows "db (snd (Connect_all calls s)) = None \<and>
         GetInstance (snd (Connect_all calls s)) = Panic ''database accessed before initialized''"
proof -
  from assms have "db (snd (Connect_all calls s)) = None"
  proof (induction calls arbitrary: s)
    case Nil
    then show ?case by simp
  next
    case (Cons c cs)
    obtain env driver dsn opts where c: "c = (env, driver, dsn, opts)"
      by (cases c)
    obtain r s' where r: "Connect env driver dsn opts s = (r, s')"
      by (cases "Connect env driver dsn opts s")
    obtain rs s'' where rs: "Connect_all cs s' = (rs, s'')"
      by (cases "Connect_all cs s'")
    from Cons.prems(2) c r rs obtain m where m: "r = Return (Some (New m))"
      by auto
    from Connect_early_error_db [of env driver dsn opts s m] r m Cons.prems(1)
    have d: "db s' = None" by simp
    from Cons.prems(2) c r rs
    have "\<forall>r \<in> set (fst (Connect_all cs s')). \<exists>m. r = Return (Some (New m))"
      by simp
    from Cons.IH [OF d this] c r rs show ?case by simp
  qed
  then show ?thesis by (simp add: GetInstance_def)
qed

theorem GetInstance_nil_panics_witness:
  "db fresh = None \<and>
   fst (Connect_all [call_mysql] fresh) = [Return (Some (New ''unsupported database: mysql''))] \<and>
   GetInstance (snd (Connect_all [call_mysql] fresh)) =
     Panic ''database accessed before initialized''"
proof -
  have h: "db fresh = None" by (simp add: fresh_def)
  have r: "fst (Connect_all [call_mysql] fresh) =
             [Return (Some (New ''unsupported database: mysql''))]"
    by (simp add: call_mysql_def Connect_def open_db_def ToLower_MySQL)
  have k: "\<forall>r \<in> set (fst (Connect_all [call_mysql] fresh)). \<exists>m. r = Return (Some (New m))"
    unfolding r by simp
  from GetInstance_nil_panics [OF h k] h r show ?thesis by simp
qed

subsection \<open>Driver names in any case\<close>

text \<open>
  C5. \<^verbatim>\<open>Connect\<close> does with a driver name what it does with the name in lower case, in
  every environment and state. In particular \<^verbatim>\<open>POSTGRES\<close>, \<^verbatim>\<open>Postgres\<close> and
  \<^verbatim>\<open>PostgreSQL\<close> are handled as \<^verbatim>\<open>postgres\<close> is, \<^verbatim>\<open>POSTGRESQL\<close> as
  \<^verbatim>\<open>postgresql\<close>, and \<^verbatim>\<open>CloudSQL-Postgres\<close> as \<^verbatim>\<open>cloudsql-postgres\<close>.
\<close>

theorem Connect_case_insensitive:
  "Connect env driver dsn opts s = Connect env (ToLower driver) dsn opts s \<and>
   Connect env ''POSTGRES'' dsn opts s = Connect env ''postgres'' dsn opts s \<and>
   Connect env ''PostgreSQL'' dsn opts s = Connect env ''postgres'' dsn opts s \<and>
   Connect env ''Postgres'' dsn opts s = Connect env ''postgres'' dsn opts s \<and>
   Connect env ''POSTGRESQL'' dsn opts s = Connect env ''postgresql'' dsn opts s \<and>
   Connect env ''CloudSQL-Postgres'' dsn opts s = Connect env ''cloudsql-postgres'' dsn opts s"
proof -
  have 1: "ToLower ''POSTGRES'' = ''postgres''" by code_simp
  have 2: "ToLower ''PostgreSQL'' = ''postgresql''" by code_simp
  have 3: "ToLower ''Postgres'' = ''postgres''" by code_simp
  have 4: "ToLower ''POSTGRESQL'' = ''postgresql''" by code_simp
  have a: "Connect env driver dsn opts s = Connect env (ToLower driver) dsn opts s"
    by (simp add: Connect_def ToLower_idem)
  have b: "open_db env ''postgresql'' dsn s = open_db env ''postgres'' dsn s"
    by (simp add: open_db_def)
  show ?thesis using a b
    by (simp add: Connect_def 1 2 3 4 ToLower_CloudSQL ToLower_postgres ToLower_postgresql
        ToLower_cloudsql)
qed

subsection \<open>The options passed to \<^verbatim>\<open>pgxv5.RegisterDriver\<close>\<close>

text \<open>
  C6. Whenever the lower-case driver name is \<^verbatim>\<open>cloudsql-postgres\<close>, \<^verbatim>\<open>Connect\<close> makes
  one call of \<^verbatim>\<open>pgxv5.RegisterDriver\<close>, under the name \<^verbatim>\<open>cloudsql-postgres\<close>. Its
  options hold the credentials-file option for \<^verbatim>\<open>/etc/sql/auth.json\<close> exactly when
  \<^verbatim>\<open>os.Stat\<close> of that path returns no error (which is how the code asks whether the
  file exists), and hold no credentials-file option for any other path; so when
  \<^verbatim>\<open>os.Stat\<close> fails there is no credentials-file option at all.
\<close>

theorem cloudsql_credentials_file:
  assumes "ToLower driver = ''cloudsql-postgres''"
  shows "\<exists>authOption.
           RegisterDriver_calls (snd (Connect env driver dsn opts s)) =
             RegisterDriver_calls s @ [(''cloudsql-postgres'', authOption)] \<and>
           (WithCredentialsFile ''/etc/sql/auth.json'' \<in> set authOption \<longleftrightarrow>
              os_Stat env ''/etc/sql/auth.json'' = None) \<and>
           (\<forall>p. WithCredentialsFile p \<in> set authOption \<longrightarrow> p = ''/etc/sql/auth.json'')"
  unfolding Connect_cloudsql_calls [OF assms] by simp

theorem cloudsql_credentials_file_witness:
  "ToLower ''CloudSQL-Postgres'' = ''cloudsql-postgres'' \<and>
   (\<exists>authOption.
      RegisterDriver_calls (snd (Connect env_keyfile ''CloudSQL-Postgres'' ''host=db'' [] fresh)) =
        [(''cloudsql-postgres'', authOption)] \<and>
      WithCredentialsFile ''/etc/sql/auth.json'' \<in> set authOption) \<and>
   (\<exists>authOption.
      RegisterDriver_calls (snd (Connect env_ok ''CloudSQL-Postgres'' ''host=db'' [] fresh)) =
        [(''cloudsql-postgres'', authOption)] \<and>
      WithCredentialsFile ''/etc/sql/auth.json'' \<notin> set authOption)"
proof -
  have k: "os_Stat env_keyfile ''/etc/sql/auth.json'' = None"
    by (simp add: env_keyfile_def)
  have n: "os_Stat env_ok ''/etc/sql/auth.json'' \<noteq> None"
    by (simp add: env_ok_def)
  have c: "RegisterDriver_calls fresh = []"
    by (simp add: fresh_def)
  from cloudsql_credentials_file [OF ToLower_CloudSQL, of env_keyfile "''host=db''" "[]" fresh]
  have 1: "\<exists>authOption.
      RegisterDriver_calls (snd (Connect env_keyfile ''CloudSQL-Postgres'' ''host=db'' [] fresh)) =
        [(''cloudsql-postgres'', authOption)] \<and>
      WithCredentialsFile ''/etc/sql/auth.json'' \<in> set authOption"
    unfolding k c by auto
  from cloudsql_credentials_file [OF ToLower_CloudSQL, of env_ok "''host=db''" "[]" fresh]
  have 2: "\<exists>authOption.
      RegisterDriver_calls (snd (Connect env_ok ''CloudSQL-Postgres'' ''host=db'' [] fresh)) =
        [(''cloudsql-postgres'', authOption)] \<and>
      WithCredentialsFile ''/etc/sql/auth.json'' \<notin> set authOption"
    using n unfolding c by auto
  from ToLower_CloudSQL 1 2 show ?thesis by (intro conjI)
qed

subsection \<open>A successful call\<close>

text \<open>
  C7. Whenever \<^verbatim>\<open>Connect\<close> returns nil, the package-level handle is not nil afterwards,
  and \<^verbatim>\<open>GetInstance\<close> returns it without panicking.
\<close>

theorem Connect_success_GetInstance:
  assumes "fst (Connect env driver dsn opts s) = Return None"
  shows "\<exists>h. db (snd (Connect env driver dsn opts s)) = Some h \<and>
             GetInstance (snd (Connect env driver dsn opts s)) = Return h"
proof -
  obtain r s1 where o: "open_db env (ToLower driver) dsn s = (r, s1)"
    by (cases "open_db env (ToLower driver) dsn s")
  with assms have r: "r = None"
    by (cases r) (simp_all add: Connect_def)
  with o have c: "Connect env driver dsn opts s = support_db_options env opts s1"
    by (simp add: Connect_def)
  from assms have "\<exists>h. db s1 = Some h"
    unfolding c by (cases "db s1") (simp_all add: support_db_options_def)
  then show ?thesis
    unfolding c by (auto simp: GetInstance_def support_db_options_db)
qed

theorem Connect_success_GetInstance_witness:
  "fst (Connect env_ok ''PostgreSQL'' ''host=db'' [WithMaxConnections 5] fresh) = Return None \<and>
   GetInstance (snd (Connect env_ok ''PostgreSQL'' ''host=db'' [WithMaxConnections 5] fresh)) =
     Return 7"
proof -
  have l: "ToLower ''PostgreSQL'' = ''postgresql''" by code_simp
  have h: "fst (Connect env_ok ''PostgreSQL'' ''host=db'' [WithMaxConnections 5] fresh) =
             Return None"
    by (simp add: Connect_def open_db_def support_db_options_def l env_ok_def fresh_def
        WithMaxConnections_def)
  have d: "db (snd (Connect env_ok ''PostgreSQL'' ''host=db'' [WithMaxConnections 5] fresh)) =
             Some 7"
    by (simp add: Connect_def open_db_def support_db_options_def l env_ok_def fresh_def
        WithMaxConnections_def)
  from Connect_success_GetInstance [OF h] h d show ?thesis by auto
qed

subsection \<open>The two options of the package\<close>

text \<open>
  C8, as stated: \<^verbatim>\<open>WithMaxConnections(n)\<close> sets the maximum of open connections to
  \<open>n\<close> and \<^verbatim>\<open>WithMaxIdleConnections(n)\<close> the maximum of idle connections to \<open>n\<close>, for
  every integer \<open>n\<close>. It fails: on a new pool \<^verbatim>\<open>WithMaxConnections(-1)\<close> leaves the
  open limit 0, and on a pool limited to 5 open connections
  \<^verbatim>\<open>WithMaxIdleConnections(9)\<close> leaves the idle limit 5.
\<close>

theorem options_limit_counterexample:
  "sint (- 1 :: go_int) = - 1 \<and>
   maxOpen (limits_after new_limits (fst (WithMaxConnections (- 1) []))) = 0 \<and>
   sint (9 :: go_int) = 9 \<and>
   maxIdleConnsLocked
     (limits_after new_limits (fst (WithMaxIdleConnections 9 [SetMaxOpenConns 5]))) = 5"
  by (simp add: limits_after_def new_limits_def WithMaxConnections_def
      WithMaxIdleConnections_def sql_SetMaxOpenConns_def sql_SetMaxIdleConns_def
      maxIdleConnsLocked_def)

text \<open>
  C8, amended: for every integer \<open>n\<close> and every pool object \<open>d\<close>, the option
  \<^verbatim>\<open>WithMaxConnections(n)\<close> makes one call, \<^verbatim>\<open>SetMaxOpenConns(n)\<close>, on \<open>d\<close> and
  returns nil, and \<^verbatim>\<open>WithMaxIdleConnections(n)\<close> makes one call,
  \<^verbatim>\<open>SetMaxIdleConns(n)\<close>, on \<open>d\<close> and returns nil; neither returns an error. The open
  limit is then \<open>n\<close> when \<open>n\<close> is not negative and 0 (no limit) when it is; the idle limit
  is then 0 when \<open>n\<close> is not positive, the open limit when that is positive and below
  \<open>n\<close>, and \<open>n\<close> otherwise.
\<close>

theorem options_never_fail:
  "WithMaxConnections n d = (d @ [SetMaxOpenConns n], None) \<and>
   WithMaxIdleConnections n d = (d @ [SetMaxIdleConns n], None) \<and>
   maxOpen (limits_after l (fst (WithMaxConnections n d))) =
     (if sint n < 0 then 0 else sint n) \<and>
   maxIdleConnsLocked (limits_after l (fst (WithMaxIdleConnections n d))) =
     (if sint n \<le> 0 then 0
      else if maxOpen (limits_after l d) > 0 \<and> maxOpen (limits_after l d) < sint n
           then maxOpen (limits_after l d)
           else sint n)"
proof -
  have o: "maxOpen (sql_SetMaxOpenConns k m) = (if k < 0 then 0 else k)" for k m
    by (simp add: sql_SetMaxOpenConns_def sql_SetMaxIdleConns_def Let_def)
  have i: "maxIdleConnsLocked (sql_SetMaxIdleConns k m) =
             (if k \<le> 0 then 0 else if maxOpen m > 0 \<and> maxOpen m < k then maxOpen m else k)"
    for k m
    by (simp add: sql_SetMaxIdleConns_def maxIdleConnsLocked_def Let_def)
  show ?thesis
    by (simp add: WithMaxConnections_def WithMaxIdleConnections_def limits_after_def o i)
qed

subsection \<open>Connecting again\<close>

text \<open>
  C9. When the package-level handle is already set and a later call of \<^verbatim>\<open>Connect\<close>
  gets through the open, the handle after the call is the pointer \<^verbatim>\<open>gorm.Open\<close>
  returned in that call, whatever the old handle was; nothing tests the old handle. The
  call touches no pool but the one the new handle gives: the old pool receives no call.
\<close>

theorem Connect_overwrites:
  assumes "db s = Some old"
    and "open_db env (ToLower driver) dsn s = (None, s1)"
  shows "db (snd (Connect env driver dsn opts s)) =
           fst (gorm_Open env
                 (if ToLower driver = ''cloudsql-postgres''
                  then postgres_New (fst (sql_Open env ''cloudsql-postgres'' dsn))
                  else postgres_Open dsn)) \<and>
         (\<forall>a. (\<forall>h. db s1 = Some h \<longrightarrow> DB_method env h \<noteq> Inr a) \<longrightarrow>
              pools (snd (Connect env driver dsn opts s)) a = pools s a)"
proof -
  from assms(2) have c: "Connect env driver dsn opts s = support_db_options env opts s1"
    by (simp add: Connect_def)
  from open_db_pools [of env "ToLower driver" dsn s] assms(2) have p: "pools s1 = pools s"
    by simp
  show ?thesis
    unfolding c support_db_options_db
    using open_db_ok_db [OF assms(2)] support_db_options_pools [of s1 env _ opts] p
    by simp
qed

theorem Connect_overwrites_witness:
  "db connected = Some 7 \<and>
   open_db env_second (ToLower ''postgres'') ''host=other'' connected =
     (None, connected\<lparr>db := Some 9\<rparr>) \<and>
   db (snd (Connect env_second ''postgres'' ''host=other'' [WithMaxConnections 3] connected)) =
     Some 9 \<and>
   pools (snd (Connect env_second ''postgres'' ''host=other'' [WithMaxConnections 3] connected)) 1 =
     pools connected 1"
proof -
  have h1: "db connected = Some 7" by (simp add: connected_def)
  have h2: "open_db env_second (ToLower ''postgres'') ''host=other'' connected =
              (None, connected\<lparr>db := Some 9\<rparr>)"
    by (simp add: open_db_def ToLower_postgres env_second_def env_ok_def)
  have g: "gorm_Open env_second (postgres_Open ''host=other'') = (Some 9, None)"
    by (simp add: env_second_def env_ok_def)
  have m: "DB_method env_second 9 \<noteq> Inr 1" by (simp add: env_second_def env_ok_def)
  from Connect_overwrites [OF h1 h2, of "[WithMaxConnections 3]"] h1 h2 g m show ?thesis
    by (simp add: ToLower_postgres)
qed

subsection \<open>IAM authentication\<close>

text \<open>
  C10. Whenever the lower-case driver name is \<^verbatim>\<open>cloudsql-postgres\<close>, the options of
  the call of \<^verbatim>\<open>pgxv5.RegisterDriver\<close> start with the IAM-authentication option,
  whether the credential file exists or not; when \<^verbatim>\<open>os.Stat\<close> finds the file, the
  credentials-file option comes after it, and otherwise nothing does.
\<close>

theorem cloudsql_iam_always:
  assumes "ToLower driver = ''cloudsql-postgres''"
  shows "RegisterDriver_calls (snd (Connect env driver dsn opts s)) =
           RegisterDriver_calls s @
             [(''cloudsql-postgres'',
               [WithIAMAuthN] @ (if os_Stat env ''/etc/sql/auth.json'' = None
                                 then [WithCredentialsFile ''/etc/sql/auth.json''] else []))]"
  unfolding Connect_cloudsql_calls [OF assms] by simp

theorem cloudsql_iam_always_witness:
  "ToLower ''cloudsql-postgres'' = ''cloudsql-postgres'' \<and>
   RegisterDriver_calls (snd (Connect env_ok ''cloudsql-postgres'' ''host=db'' [] fresh)) =
     [(''cloudsql-postgres'', [WithIAMAuthN])] \<and>
   RegisterDriver_calls (snd (Connect env_keyfile ''cloudsql-postgres'' ''host=db'' [] fresh)) =
     [(''cloudsql-postgres'', [WithIAMAuthN, WithCredentialsFile ''/etc/sql/auth.json''])]"
  using cloudsql_iam_always [OF ToLower_cloudsql, of env_ok "''host=db''" "[]" fresh]
    cloudsql_iam_always [OF ToLower_cloudsql, of env_keyfile "''host=db''" "[]" fresh]
    ToLower_cloudsql
  by (simp add: env_ok_def env_keyfile_def fresh_def)

end
